theory Spec2Isabelle
  imports Complex_Main "HOL-Library.AList" "HOL-Library.Sublist"
begin

section \<open>Python values, errors and the transport\<close>

text \<open>
  Decoded JSON, as \<^verbatim>\<open>res.json()\<close> and \<^verbatim>\<open>json.loads\<close> return it and as the
  \<^verbatim>\<open>json=\<close> argument of \<^verbatim>\<open>http_request\<close> takes it. A Python dict keeps its keys in
  insertion order and an assignment to an existing key keeps the key's place: an object is
  an association list, written with \<^const>\<open>AList.update\<close>. Python floats are read as
  reals (no NaN, no infinities, no rounding).
\<close>

datatype json =
    JNull
  | JBool bool
  | JInt int
  | JReal real
  | JStr string
  | JArr "json list"
  | JObj "(string \<times> json) list"

text \<open>The exceptions the modelled code can raise; \<open>RuntimeError\<close> carries its argument tuple.\<close>

datatype error =
    AssertionError string
  | RuntimeError "json list"
  | KeyError string
  | TypeError
  | ValueError
  | IndexError
  | AttributeError string
  | JSONDecodeError
  | ConnectionError
  | TimeoutError

text \<open>\<^verbatim>\<open>obj[key]\<close> with a string key: only a dict can be subscripted by a string.\<close>

fun getitem :: "json \<Rightarrow> string \<Rightarrow> error + json" where
  "getitem (JObj d) k = (case map_of d k of None \<Rightarrow> Inl (KeyError k) | Some v \<Rightarrow> Inr v)"
| "getitem _ k = Inl TypeError"

text \<open>\<^verbatim>\<open>{**d, **kwargs}\<close>: the keys of \<open>kwargs\<close> are assigned in order.\<close>

definition dict_unpack :: "(string \<times> json) list \<Rightarrow> (string \<times> json) list \<Rightarrow> (string \<times> json) list" where
  "dict_unpack d kwargs = foldl (\<lambda>acc kv. AList.update (fst kv) (snd kv) acc) d kwargs"

text \<open>
  \<^verbatim>\<open>http_request\<close> lives in \<^verbatim>\<open>sglang.utils\<close> and is not modelled: the transport
  is a parameter. It sees the requests issued before (the server may keep state) and either
  raises or returns a response with a status code, a body that \<^verbatim>\<open>res.json()\<close> decodes
  (or fails to) and, for a streamed response, the lines of \<^verbatim>\<open>res.iter_lines\<close>, already
  decoded from UTF-8. Every call is appended to the log of issued requests.
\<close>

record request =
  req_url :: string
  req_json :: "json option"
  req_stream :: bool
  req_cred_kw :: string
  req_cred :: "string option"
  req_verify :: "string option"

record response =
  status_code :: int
  res_json :: "json option"
  res_lines :: "string list"

type_synonym transport = "request list \<Rightarrow> request \<Rightarrow> error + response"

definition http_request :: "transport \<Rightarrow> request \<Rightarrow> request list \<Rightarrow> (error + response) \<times> request list" where
  "http_request net req sent = (net sent req, sent @ [req])"

section \<open>The runtime endpoint\<close>

text \<open>
  The attributes \<^verbatim>\<open>RuntimeEndpoint.__init__\<close> assigns are the fields; \<open>inherited\<close> holds
  whatever \<^verbatim>\<open>BaseBackend.__init__\<close> (another module, not modelled) assigned under other
  names. \<open>s_text\<close> and \<open>s_images\<close> are \<^verbatim>\<open>s.text_\<close> and \<^verbatim>\<open>s.images_\<close> of the
  \<^verbatim>\<open>StreamExecutor\<close>, an image being a pair of a path and its encoded data.
\<close>

record 'ct runtime_endpoint =
  inherited :: "(string \<times> string option) list"
  support_concate_and_append :: bool
  base_url :: string
  api_key :: "string option"
  verify :: "string option"
  model_info :: json
  chat_template :: 'ct

record stream_executor =
  s_text :: string
  s_images :: "(string \<times> string) list"

datatype dtype = DNone | DType string | DStr string

record sampling_params =
  dtype :: dtype
  to_srt_kwargs :: "(string \<times> json) list"
  return_logprob :: "json option"
  logprob_start_len :: "json option"
  top_logprobs_num :: "json option"
  return_text_in_logprobs :: "json option"

record global_config =
  skip_special_tokens_in_output :: bool
  spaces_between_special_tokens_in_out :: bool

text \<open>\<^verbatim>\<open>_assert_success\<close>: a status other than 200 raises with the decoded body.\<close>

definition assert_success :: "response \<Rightarrow> error + unit" where
  "assert_success res =
     (if status_code res \<noteq> 200
      then (case res_json res of None \<Rightarrow> Inl JSONDecodeError | Some b \<Rightarrow> Inl (RuntimeError [b]))
      else Inr ())"

text \<open>\<^verbatim>\<open>_add_images\<close>: the dict is updated in place; the model returns it.\<close>

definition add_images :: "stream_executor \<Rightarrow> (string \<times> json) list \<Rightarrow> error + (string \<times> json) list" where
  "add_images s data =
     (if s_images s \<noteq> []
      then (if length (s_images s) = 1
            then Inr (AList.update ''image_data'' (JStr (snd (s_images s ! 0))) data)
            else Inl (AssertionError ''Only support one image.''))
      else Inr data)"

text \<open>A request to \<open>path\<close> under the base address, with the session's key and TLS mode.\<close>

definition endpoint_request :: "'ct runtime_endpoint \<Rightarrow> string \<Rightarrow> json option \<Rightarrow> bool \<Rightarrow> request" where
  "endpoint_request self path payload streamed =
     \<lparr>req_url = base_url self @ path, req_json = payload, req_stream = streamed,
      req_cred_kw = ''api_key'', req_cred = api_key self, req_verify = verify self\<rparr>"

subsection \<open>Streaming generation\<close>

text \<open>\<^verbatim>\<open>str.strip("\n")\<close> and \<^verbatim>\<open>str.startswith\<close>.\<close>

definition strip_nl :: "string \<Rightarrow> string" where
  "strip_nl s = rev (dropWhile (\<lambda>c. c = CHR 0x0A) (rev (dropWhile (\<lambda>c. c = CHR 0x0A) s)))"

definition startswith :: "string \<Rightarrow> string \<Rightarrow> bool" where
  "startswith s p = (take (length p) s = p)"

text \<open>\<^verbatim>\<open>x[pos:]\<close> and \<^verbatim>\<open>len(x)\<close> on a decoded value: strings and lists can be sliced.\<close>

fun slice_from :: "json \<Rightarrow> nat \<Rightarrow> error + json" where
  "slice_from (JStr s) pos = Inr (JStr (drop pos s))"
| "slice_from (JArr xs) pos = Inr (JArr (drop pos xs))"
| "slice_from _ pos = Inl TypeError"

fun py_len :: "json \<Rightarrow> nat" where
  "py_len (JStr s) = length s"
| "py_len (JArr xs) = length xs"
| "py_len (JObj d) = length d"
| "py_len _ = 0"

text \<open>
  The body of the loop over the lines of the response, for one line that is a data frame
  other than the sentinel: the delta, the metadata and the new cursor, or the exception.
  \<open>loads\<close> is \<^verbatim>\<open>json.loads\<close> (\<open>None\<close>: the text is not JSON).
\<close>

definition frame_delta :: "(string \<Rightarrow> json option) \<Rightarrow> string \<Rightarrow> nat \<Rightarrow> error + (json \<times> json \<times> nat)" where
  "frame_delta loads chunk pos =
     (case loads (strip_nl (drop 5 chunk)) of
        None \<Rightarrow> Inl JSONDecodeError
      | Some data \<Rightarrow>
          (case getitem data ''text'' of
             Inl e \<Rightarrow> Inl e
           | Inr whole \<Rightarrow>
               (case slice_from whole pos of
                  Inl e \<Rightarrow> Inl e
                | Inr chunk_text \<Rightarrow>
                    (case getitem data ''meta_info'' of
                       Inl e \<Rightarrow> Inl e
                     | Inr meta_info \<Rightarrow> Inr (chunk_text, meta_info, pos + py_len chunk_text)))))"

text \<open>
  The loop of \<^verbatim>\<open>generate_stream\<close> from cursor \<open>pos\<close>, with the pairs yielded so far:
  what the generator has yielded when it stops, the cursor then, and the exception that
  stopped it if one did.
\<close>

fun stream_loop :: "(string \<Rightarrow> json option) \<Rightarrow> string list \<Rightarrow> nat \<Rightarrow> (json \<times> json) list
    \<Rightarrow> (json \<times> json) list \<times> nat \<times> error option" where
  "stream_loop loads [] pos out = (out, pos, None)"
| "stream_loop loads (chunk # rest) pos out =
     (if chunk \<noteq> [] \<and> startswith chunk ''data:''
      then (if chunk = ''data: [DONE]''
            then (out, pos, None)
            else (case frame_delta loads chunk pos of
                    Inl e \<Rightarrow> (out, pos, Some e)
                  | Inr (chunk_text, meta_info, pos') \<Rightarrow>
                      stream_loop loads rest pos' (out @ [(chunk_text, meta_info)])))
      else stream_loop loads rest pos out)"

text \<open>
  The payload both \<^verbatim>\<open>generate\<close> and \<^verbatim>\<open>generate_stream\<close> build before they attach
  images (the two bodies are the same text): the branch on the datatype selector, then the
  loop over the four optional fields, each read with \<^verbatim>\<open>getattr(..., None)\<close> and left out
  when it is \<^verbatim>\<open>None\<close>. \<open>to_srt_kwargs\<close> is the result of the method of that name.
\<close>

fun dtype_repr :: "dtype \<Rightarrow> string" where
  "dtype_repr DNone = ''None''"
| "dtype_repr (DType n) = ''<class '' @ [CHR 0x27] @ n @ [CHR 0x27] @ ''>''"
| "dtype_repr (DStr s) = s"

definition set_item :: "(string \<times> json) list \<Rightarrow> string \<Rightarrow> json option \<Rightarrow> (string \<times> json) list" where
  "set_item data item v = (case v of None \<Rightarrow> data | Some x \<Rightarrow> AList.update item x data)"

definition generation_data :: "global_config \<Rightarrow> stream_executor \<Rightarrow> sampling_params
    \<Rightarrow> error + (string \<times> json) list" where
  "generation_data gc s sp =
     (case (if dtype sp = DNone
            then Inr [(''text'', JStr (s_text s)),
                      (''sampling_params'', JObj (dict_unpack
                         [(''skip_special_tokens'', JBool (skip_special_tokens_in_output gc)),
                          (''spaces_between_special_tokens'', JBool (spaces_between_special_tokens_in_out gc))]
                         (to_srt_kwargs sp)))]
            else if dtype sp \<in> {DType ''int'', DStr ''int''}
            then Inr [(''text'', JStr (s_text s)),
                      (''sampling_params'', JObj (dict_unpack
                         [(''skip_special_tokens'', JBool (skip_special_tokens_in_output gc)),
                          (''spaces_between_special_tokens'', JBool (spaces_between_special_tokens_in_out gc)),
                          (''dtype'', JStr ''int'')]
                         (to_srt_kwargs sp)))]
            else Inl (RuntimeError [JStr (''Invalid dtype: '' @ dtype_repr (dtype sp))])) of
        Inl e \<Rightarrow> Inl e
      | Inr data \<Rightarrow>
          Inr (set_item (set_item (set_item (set_item data
                 ''return_logprob'' (return_logprob sp))
                 ''logprob_start_len'' (logprob_start_len sp))
                 ''top_logprobs_num'' (top_logprobs_num sp))
                 ''return_text_in_logprobs'' (return_text_in_logprobs sp)))"


subsection \<open>Unary generation\<close>

definition generate :: "transport \<Rightarrow> global_config \<Rightarrow> 'ct runtime_endpoint \<Rightarrow> stream_executor
    \<Rightarrow> sampling_params \<Rightarrow> request list \<Rightarrow> (error + json \<times> json) \<times> request list" where
  "generate net gc self s sp sent =
     (case generation_data gc s sp of
        Inl e \<Rightarrow> (Inl e, sent)
      | Inr data0 \<Rightarrow>
          (case add_images s data0 of
             Inl e \<Rightarrow> (Inl e, sent)
           | Inr data \<Rightarrow>
               (case http_request net (endpoint_request self ''/generate'' (Some (JObj data)) False) sent of
                  (Inl e, sent') \<Rightarrow> (Inl e, sent')
                | (Inr res, sent') \<Rightarrow>
                    (case assert_success res of
                       Inl e \<Rightarrow> (Inl e, sent')
                     | Inr _ \<Rightarrow>
                         (case res_json res of
                            None \<Rightarrow> (Inl JSONDecodeError, sent')
                          | Some obj \<Rightarrow>
                              (case getitem obj ''text'' of
                                 Inl e \<Rightarrow> (Inl e, sent')
                               | Inr completion \<Rightarrow>
                                   (case getitem obj ''meta_info'' of
                                      Inl e \<Rightarrow> (Inl e, sent')
                                    | Inr meta_info \<Rightarrow> (Inr (completion, meta_info), sent'))))))))"

subsection \<open>Selection\<close>

text \<open>
  \<^verbatim>\<open>max(prompt_len - 2, 0)\<close> on the decoded token count: Python's \<^verbatim>\<open>max\<close> keeps its
  first argument unless the second is greater; a bool subtracts as 0 or 1; anything else
  cannot be subtracted from.
\<close>

fun max_minus_two :: "json \<Rightarrow> error + json" where
  "max_minus_two (JInt p) = Inr (JInt (max (p - 2) 0))"
| "max_minus_two (JReal r) = Inr (if r - 2 < 0 then JInt 0 else JReal (r - 2))"
| "max_minus_two (JBool b) = Inr (JInt 0)"
| "max_minus_two _ = Inl TypeError"

text \<open>\<^verbatim>\<open>for r in obj\<close>: a list gives its elements, a dict its keys, a string its characters.\<close>

fun iter_json :: "json \<Rightarrow> error + json list" where
  "iter_json (JArr xs) = Inr xs"
| "iter_json (JObj d) = Inr (map (\<lambda>kv. JStr (fst kv)) d)"
| "iter_json (JStr s) = Inr (map (\<lambda>c. JStr [c]) s)"
| "iter_json _ = Inl TypeError"

text \<open>The comprehension \<^verbatim>\<open>[r["meta_info"][key] for r in obj]\<close> over the elements.\<close>

fun meta_fields :: "string \<Rightarrow> json list \<Rightarrow> error + json list" where
  "meta_fields k [] = Inr []"
| "meta_fields k (r # rs) =
     (case getitem r ''meta_info'' of
        Inl e \<Rightarrow> Inl e
      | Inr m \<Rightarrow>
          (case getitem m k of
             Inl e \<Rightarrow> Inl e
           | Inr v \<Rightarrow> (case meta_fields k rs of Inl e \<Rightarrow> Inl e | Inr vs \<Rightarrow> Inr (v # vs))))"

text \<open>
  \<^verbatim>\<open>np.argmax\<close> is numpy's. On a vector of floats it returns the index of the first
  occurrence of the maximum, found here by one scan that replaces the best index only on a
  strictly greater value; on an empty vector it raises \<^verbatim>\<open>ValueError\<close>. On any other
  vector (ints, which numpy may convert to floats and so round, bools, \<^verbatim>\<open>None\<close>,
  strings, nested lists) numpy returns some index or raises: that part of numpy is the
  parameter \<open>numpy\<close>, about which nothing is assumed.
\<close>

fun argmax_scan :: "real list \<Rightarrow> nat \<Rightarrow> nat \<Rightarrow> real \<Rightarrow> nat" where
  "argmax_scan [] i best bv = best"
| "argmax_scan (x # xs) i best bv =
     (if bv < x then argmax_scan xs (Suc i) i x else argmax_scan xs (Suc i) best bv)"

fun floats_of :: "json list \<Rightarrow> real list option" where
  "floats_of [] = Some []"
| "floats_of (JReal r # xs) = (case floats_of xs of None \<Rightarrow> None | Some rs \<Rightarrow> Some (r # rs))"
| "floats_of (_ # xs) = None"

definition np_argmax :: "(json list \<Rightarrow> error + nat) \<Rightarrow> json list \<Rightarrow> error + nat" where
  "np_argmax numpy xs =
     (case floats_of xs of
        None \<Rightarrow> numpy xs
      | Some [] \<Rightarrow> Inl ValueError
      | Some (r # rs) \<Rightarrow> Inr (argmax_scan rs 1 0 r))"

text \<open>The two payloads of \<^verbatim>\<open>select\<close>, before images are attached.\<close>

definition prime_data :: "stream_executor \<Rightarrow> (string \<times> json) list" where
  "prime_data s =
     [(''text'', JStr (s_text s)),
      (''sampling_params'', JObj [(''max_new_tokens'', JInt 0)])]"

definition score_data :: "stream_executor \<Rightarrow> string list \<Rightarrow> json \<Rightarrow> (string \<times> json) list" where
  "score_data s choices start =
     [(''text'', JArr (map (\<lambda>c. JStr (s_text s @ c)) choices)),
      (''sampling_params'', JObj [(''max_new_tokens'', JInt 0)]),
      (''return_logprob'', JBool True),
      (''logprob_start_len'', start)]"

text \<open>
  Lines 241 to 254: the scores are read, the decision is \<^verbatim>\<open>choices[np.argmax(...)]\<close>
  (an index past the end of \<open>choices\<close> raises), then the two logprob columns are read.
\<close>

definition select_result :: "(json list \<Rightarrow> error + nat) \<Rightarrow> string list \<Rightarrow> json
    \<Rightarrow> error + string \<times> json list \<times> json list \<times> json list" where
  "select_result numpy choices obj =
     (case iter_json obj of
        Inl e \<Rightarrow> Inl e
      | Inr rs \<Rightarrow>
          (case meta_fields ''normalized_prompt_logprob'' rs of
             Inl e \<Rightarrow> Inl e
           | Inr normalized_prompt_logprobs \<Rightarrow>
               (case np_argmax numpy normalized_prompt_logprobs of
                  Inl e \<Rightarrow> Inl e
                | Inr k \<Rightarrow>
                    (if k < length choices
                     then (case meta_fields ''input_token_logprobs'' rs of
                             Inl e \<Rightarrow> Inl e
                           | Inr input_token_logprobs \<Rightarrow>
                               (case meta_fields ''output_token_logprobs'' rs of
                                  Inl e \<Rightarrow> Inl e
                                | Inr output_token_logprobs \<Rightarrow>
                                    Inr (choices ! k, normalized_prompt_logprobs,
                                         input_token_logprobs, output_token_logprobs)))
                     else Inl IndexError))))"

text \<open>Lines 214 to 224: the priming call and the prompt token count it reports.\<close>

definition select_prime :: "transport \<Rightarrow> 'ct runtime_endpoint \<Rightarrow> stream_executor \<Rightarrow> request list
    \<Rightarrow> (error + json) \<times> request list" where
  "select_prime net self s sent =
     (case add_images s (prime_data s) of
        Inl e \<Rightarrow> (Inl e, sent)
      | Inr data \<Rightarrow>
          (case http_request net (endpoint_request self ''/generate'' (Some (JObj data)) False) sent of
             (Inl e, sent') \<Rightarrow> (Inl e, sent')
           | (Inr res, sent') \<Rightarrow>
               (case assert_success res of
                  Inl e \<Rightarrow> (Inl e, sent')
                | Inr _ \<Rightarrow>
                    (case res_json res of
                       None \<Rightarrow> (Inl JSONDecodeError, sent')
                     | Some obj \<Rightarrow>
                         (case getitem obj ''meta_info'' of
                            Inl e \<Rightarrow> (Inl e, sent')
                          | Inr m \<Rightarrow> (getitem m ''prompt_tokens'', sent'))))))"

definition select :: "transport \<Rightarrow> (json list \<Rightarrow> error + nat) \<Rightarrow> 'ct runtime_endpoint
    \<Rightarrow> stream_executor \<Rightarrow> string list \<Rightarrow> real
    \<Rightarrow> request list \<Rightarrow> (error + string \<times> json list \<times> json list \<times> json list) \<times> request list" where
  "select net numpy self s choices temperature sent =
     (if temperature \<le> 1 / 100000
      then (case select_prime net self s sent of
              (Inl e, sent1) \<Rightarrow> (Inl e, sent1)
            | (Inr prompt_len, sent1) \<Rightarrow>
                (case max_minus_two prompt_len of
                   Inl e \<Rightarrow> (Inl e, sent1)
                 | Inr start \<Rightarrow>
                     (case add_images s (score_data s choices start) of
                        Inl e \<Rightarrow> (Inl e, sent1)
                      | Inr data \<Rightarrow>
                          (case http_request net
                                  (endpoint_request self ''/generate'' (Some (JObj data)) False) sent1 of
                             (Inl e, sent2) \<Rightarrow> (Inl e, sent2)
                           | (Inr res, sent2) \<Rightarrow>
                               (case assert_success res of
                                  Inl e \<Rightarrow> (Inl e, sent2)
                                | Inr _ \<Rightarrow>
                                    (case res_json res of
                                       None \<Rightarrow> (Inl JSONDecodeError, sent2)
                                     | Some obj \<Rightarrow> (select_result numpy choices obj, sent2)))))))
      else (Inl (AssertionError []), sent))"

subsection \<open>State merge, proxy calls and construction\<close>

definition concatenate_and_append :: "transport \<Rightarrow> 'ct runtime_endpoint \<Rightarrow> string list \<Rightarrow> string
    \<Rightarrow> request list \<Rightarrow> (error + unit) \<times> request list" where
  "concatenate_and_append net self src_rids dst_rid sent =
     (case http_request net
             (endpoint_request self ''/concate_and_append_request''
                (Some (JObj [(''src_rids'', JArr (map JStr src_rids)), (''dst_rid'', JStr dst_rid)]))
                False) sent of
        (Inl e, sent') \<Rightarrow> (Inl e, sent')
      | (Inr res, sent') \<Rightarrow> (assert_success res, sent'))"

text \<open>
  \<^verbatim>\<open>self.auth_token\<close>: \<^verbatim>\<open>__init__\<close> assigns no attribute of that name, so the lookup
  succeeds only if the base class left one.
\<close>

definition getattr_auth_token :: "'ct runtime_endpoint \<Rightarrow> error + string option" where
  "getattr_auth_token self =
     (case map_of (inherited self) ''auth_token'' of
        None \<Rightarrow> Inl (AttributeError ''auth_token'')
      | Some v \<Rightarrow> Inr v)"

definition flush_cache :: "transport \<Rightarrow> 'ct runtime_endpoint \<Rightarrow> request list
    \<Rightarrow> (error + unit) \<times> request list" where
  "flush_cache net self sent =
     (case getattr_auth_token self of
        Inl e \<Rightarrow> (Inl e, sent)
      | Inr token \<Rightarrow>
          (case http_request net
                  \<lparr>req_url = base_url self @ ''/flush_cache'', req_json = None, req_stream = False,
                   req_cred_kw = ''auth_token'', req_cred = token, req_verify = verify self\<rparr> sent of
             (Inl e, sent') \<Rightarrow> (Inl e, sent')
           | (Inr res, sent') \<Rightarrow> (assert_success res, sent')))"

definition get_server_args :: "transport \<Rightarrow> 'ct runtime_endpoint \<Rightarrow> request list
    \<Rightarrow> (error + json) \<times> request list" where
  "get_server_args net self sent =
     (case getattr_auth_token self of
        Inl e \<Rightarrow> (Inl e, sent)
      | Inr token \<Rightarrow>
          (case http_request net
                  \<lparr>req_url = base_url self @ ''/get_server_args'', req_json = None, req_stream = False,
                   req_cred_kw = ''auth_token'', req_cred = token, req_verify = verify self\<rparr> sent of
             (Inl e, sent') \<Rightarrow> (Inl e, sent')
           | (Inr res, sent') \<Rightarrow>
               (case assert_success res of
                  Inl e \<Rightarrow> (Inl e, sent')
                | Inr _ \<Rightarrow>
                    (case res_json res of
                       None \<Rightarrow> (Inl JSONDecodeError, sent')
                     | Some args \<Rightarrow> (Inr args, sent')))))"

definition get_model_name :: "'ct runtime_endpoint \<Rightarrow> error + json" where
  "get_model_name self = getitem (model_info self) ''model_path''"

definition get_chat_template :: "'ct runtime_endpoint \<Rightarrow> 'ct" where
  "get_chat_template self = chat_template self"

text \<open>
  \<^verbatim>\<open>__init__\<close>. \<open>base_attrs\<close> are the attributes \<^verbatim>\<open>super().__init__()\<close> leaves under
  names this constructor does not assign, and \<open>template_of\<close> is
  \<^verbatim>\<open>get_chat_template_by_model_path\<close>; both come from other modules and are parameters.
\<close>

definition runtime_endpoint_init :: "transport \<Rightarrow> (json \<Rightarrow> 'ct) \<Rightarrow> (string \<times> string option) list
    \<Rightarrow> string \<Rightarrow> string option \<Rightarrow> string option \<Rightarrow> request list
    \<Rightarrow> (error + 'ct runtime_endpoint) \<times> request list" where
  "runtime_endpoint_init net template_of base_attrs url key tls sent =
     (case http_request net
             \<lparr>req_url = url @ ''/get_model_info'', req_json = None, req_stream = False,
              req_cred_kw = ''api_key'', req_cred = key, req_verify = tls\<rparr> sent of
        (Inl e, sent') \<Rightarrow> (Inl e, sent')
      | (Inr res, sent') \<Rightarrow>
          (case assert_success res of
             Inl e \<Rightarrow> (Inl e, sent')
           | Inr _ \<Rightarrow>
               (case res_json res of
                  None \<Rightarrow> (Inl JSONDecodeError, sent')
                | Some info \<Rightarrow>
                    (case getitem info ''model_path'' of
                       Inl e \<Rightarrow> (Inl e, sent')
                     | Inr path \<Rightarrow>
                         (Inr \<lparr>inherited = base_attrs, support_concate_and_append = True,
                               base_url = url, api_key = key, verify = tls, model_info = info,
                               chat_template = template_of path\<rparr>, sent')))))"

section \<open>The bounded test runner\<close>

text \<open>
  \<^verbatim>\<open>run_with_timeout\<close> starts a thread on \<open>func\<close> and joins it for \<open>timeout\<close> seconds.
  What it does next depends on the thread alone: still alive, dead without having appended
  a return value (\<open>func\<close> raised), or dead with one.
\<close>

datatype 'a thread_state = Alive | Died | Returned 'a

definition run_with_timeout :: "'a thread_state \<Rightarrow> error + 'a" where
  "run_with_timeout t =
     (case t of
        Alive \<Rightarrow> Inl TimeoutError
      | Died \<Rightarrow> Inl (RuntimeError [])
      | Returned v \<Rightarrow> Inr v)"

text \<open>
  A test unit is a file name with what its worker process does: it ends after some seconds
  with an exit code, it never ends, or it cannot be started. \<open>run_one_file\<close> is
  \<^verbatim>\<open>p.start(); p.join()\<close>: its thread is alive after the join exactly when the process
  outlasts the timeout. \<open>exitcode\<close> is \<^verbatim>\<open>p.exitcode\<close>, \<open>None\<close> for a process that has
  not ended.
\<close>

datatype worker = Ends real int | Forever | StartFails

fun run_one_file :: "real \<Rightarrow> worker \<Rightarrow> unit thread_state" where
  "run_one_file timeout (Ends d c) = (if d \<le> timeout then Returned () else Alive)"
| "run_one_file timeout Forever = Alive"
| "run_one_file timeout StartFails = Died"

fun exitcode :: "worker \<Rightarrow> int option" where
  "exitcode (Ends d c) = Some c"
| "exitcode _ = None"

text \<open>
  What the runner does to the outside, in order: a worker started, a worker terminated, a
  sleep of so many seconds, and the three messages (the elapsed time they print is left
  out). The function returns an int on two paths and a bool on the third.
\<close>

datatype event = Start string | Terminate string | Sleep nat | PrintTimeout | PrintSuccess | PrintFail

datatype retval = RInt int | RBool bool

datatype loop_exit = Finished bool | Return retval | Raise error

text \<open>
  The \<^verbatim>\<open>for filename in files\<close> loop with the flag \<open>success\<close>: it ends by exhaustion or
  \<^verbatim>\<open>break\<close> (\<open>Finished\<close> with the flag), by the \<^verbatim>\<open>return\<close> of the timeout handler, or
  by an exception the handler does not catch.
\<close>

fun files_loop :: "real \<Rightarrow> (string \<times> worker) list \<Rightarrow> bool \<Rightarrow> event list \<Rightarrow> loop_exit \<times> event list" where
  "files_loop timeout_per_file [] success ev = (Finished success, ev)"
| "files_loop timeout_per_file ((filename, p) # files) success ev =
     (case run_with_timeout (run_one_file timeout_per_file p) of
        Inr _ \<Rightarrow>
          (if exitcode p \<noteq> Some 0
           then (Finished False, ev @ [Start filename])
           else files_loop timeout_per_file files success (ev @ [Start filename]))
      | Inl e \<Rightarrow>
          (if e = TimeoutError
           then (Return (RBool False), ev @ [Start filename, Terminate filename, Sleep 5, PrintTimeout])
           else (Raise e, ev @ [Start filename])))"

definition run_unittest_files :: "(string \<times> worker) list \<Rightarrow> real \<Rightarrow> (error + retval) \<times> event list" where
  "run_unittest_files files timeout_per_file =
     (case files_loop timeout_per_file files True [] of
        (Finished success, ev) \<Rightarrow>
          (Inr (RInt (if success then 0 else - 1)), ev @ [if success then PrintSuccess else PrintFail])
      | (Return v, ev) \<Rightarrow> (Inr v, ev)
      | (Raise e, ev) \<Rightarrow> (Inl e, ev))"

text \<open>
  Python's \<^verbatim>\<open>bool\<close> is a subclass of \<^verbatim>\<open>int\<close>: \<^verbatim>\<open>False == 0\<close>, and a caller that
  hands the return value to \<^verbatim>\<open>exit\<close> or compares it with 0 sees this integer.
\<close>

fun int_of_retval :: "retval \<Rightarrow> int" where
  "int_of_retval (RInt i) = i"
| "int_of_retval (RBool b) = (if b then 1 else 0)"

text \<open>The files whose workers were started, in the order of starting.\<close>

fun started :: "event list \<Rightarrow> string list" where
  "started [] = []"
| "started (Start f # ev) = f # started ev"
| "started (_ # ev) = started ev"

section \<open>Notions the properties are stated with\<close>






text \<open>What \<^verbatim>\<open>_add_images\<close> adds to a payload without an image field.\<close>

definition image_field :: "stream_executor \<Rightarrow> (string \<times> json) list" where
  "image_field s = (case s_images s of [] \<Rightarrow> [] | img # _ \<Rightarrow> [(''image_data'', JStr (snd img))])"

text \<open>A unit succeeds when its worker ends within the timeout with exit code 0.\<close>

fun succeeds :: "real \<Rightarrow> string \<times> worker \<Rightarrow> bool" where
  "succeeds timeout (f, Ends d c) = (d \<le> timeout \<and> c = 0)"
| "succeeds timeout (f, _) = False"

section \<open>Concrete inputs\<close>

text \<open>
  A session, a configuration, sampling parameters and a program state to run the model on,
  a decoder that knows two frames, and a streamed response of two cumulative frames.
\<close>

definition toy_self :: "unit runtime_endpoint" where
  "toy_self = \<lparr>inherited = [], support_concate_and_append = True, base_url = ''http://h:1'',
     api_key = None, verify = None, model_info = JObj [(''model_path'', JStr ''m'')],
     chat_template = ()\<rparr>"

definition toy_gc :: global_config where
  "toy_gc = \<lparr>skip_special_tokens_in_output = True, spaces_between_special_tokens_in_out = True\<rparr>"

definition toy_sp :: sampling_params where
  "toy_sp = \<lparr>dtype = DNone, to_srt_kwargs = [(''max_new_tokens'', JInt 8)],
     return_logprob = None, logprob_start_len = None, top_logprobs_num = None,
     return_text_in_logprobs = None\<rparr>"

definition toy_s :: stream_executor where
  "toy_s = \<lparr>s_text = ''Say: '', s_images = []\<rparr>"

definition toy_loads :: "string \<Rightarrow> json option" where
  "toy_loads t =
     (if t = '' {text: He, meta_info: 1}''
      then Some (JObj [(''text'', JStr ''He''), (''meta_info'', JInt 1)])
      else if t = '' {text: Hello, meta_info: 2}''
      then Some (JObj [(''text'', JStr ''Hello''), (''meta_info'', JInt 2)])
      else None)"


text \<open>
  The answers to the two requests of a selection over three choices: a prompt of one
  token, then three scores of which the second and the third tie for the maximum. The
  transport answers the first request of a session with the one and any later request with
  the other; \<open>toy_numpy\<close> stands for numpy on vectors that are not all floats.
\<close>

definition toy_prime :: response where
  "toy_prime = \<lparr>status_code = 200,
     res_json = Some (JObj [(''text'', JStr []), (''meta_info'', JObj [(''prompt_tokens'', JInt 1)])]),
     res_lines = []\<rparr>"

definition toy_score :: "real \<Rightarrow> json" where
  "toy_score x = JObj [(''text'', JStr []),
     (''meta_info'', JObj [(''normalized_prompt_logprob'', JReal x),
                          (''input_token_logprobs'', JArr []),
                          (''output_token_logprobs'', JArr [])])]"

definition toy_scores :: response where
  "toy_scores = \<lparr>status_code = 200,
     res_json = Some (JArr [toy_score (- 3), toy_score (- 1), toy_score (- 1)]),
     res_lines = []\<rparr>"

definition toy_numpy :: "json list \<Rightarrow> error + nat" where
  "toy_numpy xs = Inl TypeError"

definition toy_net :: transport where
  "toy_net sent req = (if sent = [] then Inr toy_prime else Inr toy_scores)"

text \<open>
  Four more responses: a refusal with a body that decodes, a refusal with a body that is
  not JSON, the model information the constructor fetches, and a completion; and the
  transport that always answers with the completion.
\<close>

definition toy_404 :: response where
  "toy_404 = \<lparr>status_code = 404, res_json = Some (JObj [(''detail'', JStr ''Not Found'')]), res_lines = []\<rparr>"

definition toy_502 :: response where
  "toy_502 = \<lparr>status_code = 502, res_json = None, res_lines = []\<rparr>"

definition toy_info :: response where
  "toy_info = \<lparr>status_code = 200, res_json = Some (JObj [(''model_path'', JStr ''m'')]), res_lines = []\<rparr>"

definition toy_completion :: response where
  "toy_completion = \<lparr>status_code = 200,
     res_json = Some (JObj [(''text'', JStr ''ok''), (''meta_info'', JObj [(''prompt_tokens'', JInt 1)])]),
     res_lines = []\<rparr>"

definition toy_ok_net :: transport where
  "toy_ok_net sent req = Inr toy_completion"

section \<open>Properties\<close>

subsection \<open>Streaming deltas\<close>





lemma generation_data_valid:
  "dtype sp \<in> {DNone, DType ''int'', DStr ''int''} \<Longrightarrow> \<exists>data. generation_data gc s sp = Inr data"
  by (auto simp: generation_data_def)


lemma assert_success_200: "status_code res = 200 \<Longrightarrow> assert_success res = Inr ()"
  by (simp add: assert_success_def)











text \<open>
  Three properties of the loop that need no assumption on the snapshots. Whatever the lines
  are, and however the loop ends, the cursor has advanced by the total length of the deltas
  yielded.
\<close>

lemma stream_loop_cursor_step:
  "frame_delta loads chunk pos = Inr (chunk_text, meta_info, pos') \<Longrightarrow> pos' = pos + py_len chunk_text"
  by (auto simp: frame_delta_def split: option.splits sum.splits)

theorem stream_loop_cursor_invariant:
  "\<exists>new. fst (stream_loop loads lines pos out) = out @ new
     \<and> fst (snd (stream_loop loads lines pos out)) = pos + sum_list (map (\<lambda>y. py_len (fst y)) new)"
proof (induction loads lines pos out rule: stream_loop.induct)
  case (1 loads pos out)
  show ?case by simp
next
  case (2 loads chunk rest pos out)
  show ?case
  proof (cases "chunk \<noteq> [] \<and> startswith chunk ''data:''")
    case False
    with 2(2) show ?thesis by auto
  next
    case guard: True
    show ?thesis
    proof (cases "chunk = ''data: [DONE]''")
      case True
      with guard show ?thesis by simp
    next
      case False
      show ?thesis
      proof (cases "frame_delta loads chunk pos")
        case (Inl e)
        with guard False show ?thesis by simp
      next
        case (Inr r)
        obtain chunk_text meta_info pos' where r: "r = (chunk_text, meta_info, pos')"
          by (cases r) auto
        from Inr r have p: "pos' = pos + py_len chunk_text"
          using stream_loop_cursor_step by blast
        from "2.IH"(1) [OF guard False Inr r [symmetric] refl] obtain new where
          new: "fst (stream_loop loads rest pos' (out @ [(chunk_text, meta_info)]))
                  = (out @ [(chunk_text, meta_info)]) @ new"
               "fst (snd (stream_loop loads rest pos' (out @ [(chunk_text, meta_info)])))
                  = pos' + sum_list (map (\<lambda>y. py_len (fst y)) new)"
          by blast
        have "fst (stream_loop loads (chunk # rest) pos out) = out @ ((chunk_text, meta_info) # new)
          \<and> fst (snd (stream_loop loads (chunk # rest) pos out))
              = pos + sum_list (map (\<lambda>y. py_len (fst y)) ((chunk_text, meta_info) # new))"
          using guard False Inr r new p by simp
        then show ?thesis by blast
      qed
    qed
  qed
qed

text \<open>The sentinel ends the stream cleanly; the lines after it are not read.\<close>

theorem stream_loop_sentinel_stops:
  "stream_loop loads (''data: [DONE]'' # rest) pos out = (out, pos, None)"
  by (simp add: startswith_def)

text \<open>A line without the data prefix is skipped: nothing is yielded and nothing raised.\<close>

theorem stream_loop_ignores_other_lines:
  "\<not> startswith chunk ''data:'' \<Longrightarrow> stream_loop loads (chunk # rest) pos out = stream_loop loads rest pos out"
  by simp

theorem stream_loop_ignores_other_lines_witness:
  "stream_loop toy_loads ['': keep-alive'', [], ''data: {text: He, meta_info: 1}''] 0 []
     = stream_loop toy_loads [[], ''data: {text: He, meta_info: 1}''] 0 []"
proof -
  have "\<not> startswith '': keep-alive'' ''data:''" by (simp add: startswith_def)
  from stream_loop_ignores_other_lines [OF this] show ?thesis .
qed

subsection \<open>Selection\<close>

lemma argmax_scan_first_max:
  assumes "i = length ys" "best < length ys" "bv = ys ! best"
    and "\<forall>j<length ys. ys ! j \<le> bv" "\<forall>j<best. ys ! j < bv"
  shows "argmax_scan xs i best bv < length (ys @ xs)
     \<and> (\<forall>j<length (ys @ xs). (ys @ xs) ! j \<le> (ys @ xs) ! argmax_scan xs i best bv)
     \<and> (\<forall>j<argmax_scan xs i best bv. (ys @ xs) ! j < (ys @ xs) ! argmax_scan xs i best bv)"
  using assms
proof (induction xs arbitrary: ys i best bv)
  case Nil
  then show ?case by simp
next
  case (Cons x xs)
  show ?case
  proof (cases "bv < x")
    case True
    have "argmax_scan xs (Suc i) i x < length ((ys @ [x]) @ xs)
       \<and> (\<forall>j<length ((ys @ [x]) @ xs). ((ys @ [x]) @ xs) ! j \<le> ((ys @ [x]) @ xs) ! argmax_scan xs (Suc i) i x)
       \<and> (\<forall>j<argmax_scan xs (Suc i) i x. ((ys @ [x]) @ xs) ! j < ((ys @ [x]) @ xs) ! argmax_scan xs (Suc i) i x)"
    proof (rule Cons.IH)
      show "Suc i = length (ys @ [x])" using Cons.prems(1) by simp
      show "i < length (ys @ [x])" using Cons.prems(1) by simp
      show "x = (ys @ [x]) ! i" using Cons.prems(1) by simp
      show "\<forall>j<length (ys @ [x]). (ys @ [x]) ! j \<le> x"
        using Cons.prems(4) True by (fastforce simp: nth_append less_Suc_eq)
      show "\<forall>j<i. (ys @ [x]) ! j < x"
        using Cons.prems(1,4) True by (fastforce simp: nth_append)
    qed
    with True show ?thesis by simp
  next
    case False
    have "argmax_scan xs (Suc i) best bv < length ((ys @ [x]) @ xs)
       \<and> (\<forall>j<length ((ys @ [x]) @ xs). ((ys @ [x]) @ xs) ! j \<le> ((ys @ [x]) @ xs) ! argmax_scan xs (Suc i) best bv)
       \<and> (\<forall>j<argmax_scan xs (Suc i) best bv. ((ys @ [x]) @ xs) ! j < ((ys @ [x]) @ xs) ! argmax_scan xs (Suc i) best bv)"
    proof (rule Cons.IH)
      show "Suc i = length (ys @ [x])" using Cons.prems(1) by simp
      show "best < length (ys @ [x])" using Cons.prems(2) by simp
      show "bv = (ys @ [x]) ! best" using Cons.prems(2,3) by (simp add: nth_append)
      show "\<forall>j<length (ys @ [x]). (ys @ [x]) ! j \<le> bv"
        using Cons.prems(4) False by (auto simp: nth_append less_Suc_eq)
      show "\<forall>j<best. (ys @ [x]) ! j < bv"
        using Cons.prems(2,5) by (auto simp: nth_append)
    qed
    with False show ?thesis by simp
  qed
qed

lemma floats_of_floats: "floats_of (map JReal scores) = Some scores"
  by (induction scores) simp_all

lemma np_argmax_first_max:
  assumes "scores \<noteq> []"
  shows "\<exists>k. np_argmax numpy (map JReal scores) = Inr k \<and> k < length scores
     \<and> (\<forall>j<length scores. scores ! j \<le> scores ! k)
     \<and> (\<forall>j<k. scores ! j < scores ! k)"
proof -
  from assms obtain r rs where sc: "scores = r # rs" by (cases scores) auto
  have "argmax_scan rs 1 0 r < length ([r] @ rs)
     \<and> (\<forall>j<length ([r] @ rs). ([r] @ rs) ! j \<le> ([r] @ rs) ! argmax_scan rs 1 0 r)
     \<and> (\<forall>j<argmax_scan rs 1 0 r. ([r] @ rs) ! j < ([r] @ rs) ! argmax_scan rs 1 0 r)"
    by (rule argmax_scan_first_max) simp_all
  then show ?thesis
    using floats_of_floats [of scores] sc by (simp add: np_argmax_def)
qed

lemma update_fresh_key: "k \<notin> fst ` set al \<Longrightarrow> AList.update k v al = al @ [(k, v)]"
  by (induction al) auto

lemma add_images_appends:
  assumes "length (s_images s) \<le> 1" "''image_data'' \<notin> fst ` set data"
  shows "add_images s data = Inr (data @ image_field s)"
proof (cases "s_images s")
  case Nil
  then show ?thesis by (simp add: add_images_def image_field_def)
next
  case (Cons img imgs)
  with assms(1) have "imgs = []" by simp
  with Cons show ?thesis
    by (simp add: add_images_def image_field_def update_fresh_key [OF assms(2)])
qed

lemma add_images_many:
  "1 < length (s_images s) \<Longrightarrow> add_images s data = Inl (AssertionError ''Only support one image.'')"
  by (cases "s_images s") (auto simp: add_images_def)

lemma length_meta_fields: "meta_fields k rs = Inr vs \<Longrightarrow> length vs = length rs"
  by (induction rs arbitrary: vs) (auto split: sum.splits)

lemma select_prime_reads:
  assumes "length (s_images s) \<le> 1"
    and "\<And>req. net sent req = Inr res1"
    and "status_code res1 = 200"
    and "res_json res1 = Some obj1"
    and "getitem obj1 ''meta_info'' = Inr m"
  shows "select_prime net self s sent =
     (getitem m ''prompt_tokens'',
      sent @ [endpoint_request self ''/generate'' (Some (JObj (prime_data s @ image_field s))) False])"
proof -
  have "add_images s (prime_data s) = Inr (prime_data s @ image_field s)"
    by (rule add_images_appends [OF assms(1)]) (simp add: prime_data_def)
  then show ?thesis
    by (simp add: select_prime_def http_request_def assms(2) assert_success_200 [OF assms(3)]
        assms(4) assms(5))
qed

lemma select_issues_two:
  assumes "temperature \<le> 1 / 100000"
    and "length (s_images s) \<le> 1"
    and "\<And>req. net sent req = Inr res1"
    and "status_code res1 = 200"
    and "res_json res1 = Some obj1"
    and "getitem obj1 ''meta_info'' = Inr m"
    and "getitem m ''prompt_tokens'' = Inr prompt_len"
    and "max_minus_two prompt_len = Inr start"
  shows "snd (select net numpy self s choices temperature sent) =
     sent @ [endpoint_request self ''/generate'' (Some (JObj (prime_data s @ image_field s))) False,
             endpoint_request self ''/generate''
               (Some (JObj (score_data s choices start @ image_field s))) False]"
proof -
  have sc: "add_images s (score_data s choices start) = Inr (score_data s choices start @ image_field s)"
    by (rule add_images_appends [OF assms(2)]) (simp add: score_data_def)
  have pr: "select_prime net self s sent =
     (Inr prompt_len,
      sent @ [endpoint_request self ''/generate'' (Some (JObj (prime_data s @ image_field s))) False])"
    using select_prime_reads [where net = net and sent = sent and ?res1.0 = res1, OF assms(2) assms(3) assms(4) assms(5) assms(6)]
    by (simp only: assms(7))
  show ?thesis
    using assms(1)
    by (simp add: select_def pr assms(8) sc http_request_def split: sum.splits option.splits)
qed

text \<open>
  Claim C3. When the temperature passes the check, the state carries at most one image and
  the priming call succeeds and reports the prompt token count \<open>p\<close> (any integer, so
  0, 1 and 2 too), \<^verbatim>\<open>select\<close> issues exactly two requests whatever the second one
  returns: the priming request and one scoring request to \<^verbatim>\<open>/generate\<close> whose text is
  the list of the prompt followed by each choice, with \<^verbatim>\<open>max_new_tokens\<close> 0,
  \<^verbatim>\<open>return_logprob\<close> true and \<^verbatim>\<open>logprob_start_len\<close> equal to \<open>max (p - 2) 0\<close>.
\<close>

theorem select_scoring_request:
  assumes "temperature \<le> 1 / 100000"
    and "length (s_images s) \<le> 1"
    and "\<And>req. net sent req = Inr res1"
    and "status_code res1 = 200"
    and "res_json res1 = Some obj1"
    and "getitem obj1 ''meta_info'' = Inr m"
    and "getitem m ''prompt_tokens'' = Inr (JInt p)"
  shows "snd (select net numpy self s choices temperature sent) =
     sent @ [endpoint_request self ''/generate'' (Some (JObj (prime_data s @ image_field s))) False,
             \<lparr>req_url = base_url self @ ''/generate'',
              req_json = Some (JObj ([(''text'', JArr (map (\<lambda>c. JStr (s_text s @ c)) choices)),
                                      (''sampling_params'', JObj [(''max_new_tokens'', JInt 0)]),
                                      (''return_logprob'', JBool True),
                                      (''logprob_start_len'', JInt (max (p - 2) 0))]
                                     @ image_field s)),
              req_stream = False, req_cred_kw = ''api_key'', req_cred = api_key self,
              req_verify = verify self\<rparr>]"
proof -
  have "max_minus_two (JInt p) = Inr (JInt (max (p - 2) 0))" by simp
  from select_issues_two [where net = net and sent = sent and ?res1.0 = res1,
      OF assms(1) assms(2) assms(3) assms(4) assms(5) assms(6) assms(7) this]
  show ?thesis by (simp add: score_data_def endpoint_request_def)
qed

theorem select_scoring_request_witness:
  "map req_json (snd (select toy_net toy_numpy toy_self toy_s [''a'', ''b'', ''c''] 0 [])) =
     [Some (JObj [(''text'', JStr ''Say: ''),
                  (''sampling_params'', JObj [(''max_new_tokens'', JInt 0)])]),
      Some (JObj [(''text'', JArr [JStr ''Say: a'', JStr ''Say: b'', JStr ''Say: c'']),
                  (''sampling_params'', JObj [(''max_new_tokens'', JInt 0)]),
                  (''return_logprob'', JBool True),
                  (''logprob_start_len'', JInt 0)])]"
proof -
  have temp: "(0::real) \<le> 1 / 100000" by simp
  have images: "length (s_images toy_s) \<le> 1" by (simp add: toy_s_def)
  have net: "\<And>req. toy_net [] req = Inr toy_prime" by (simp add: toy_net_def)
  have ok: "status_code toy_prime = 200" by (simp add: toy_prime_def)
  have body: "res_json toy_prime =
      Some (JObj [(''text'', JStr []), (''meta_info'', JObj [(''prompt_tokens'', JInt 1)])])"
    by (simp add: toy_prime_def)
  have meta: "getitem (JObj [(''text'', JStr []), (''meta_info'', JObj [(''prompt_tokens'', JInt 1)])])
      ''meta_info'' = Inr (JObj [(''prompt_tokens'', JInt 1)])" by simp
  have tokens: "getitem (JObj [(''prompt_tokens'', JInt 1)]) ''prompt_tokens'' = Inr (JInt 1)" by simp
  from select_scoring_request [where net = toy_net and sent = "[]" and ?res1.0 = toy_prime
      and self = toy_self and choices = "[''a'', ''b'', ''c'']" and numpy = toy_numpy,
      OF temp images net ok body meta tokens]
  show ?thesis
    by (simp add: endpoint_request_def prime_data_def image_field_def toy_s_def)
qed

lemma select_result_scored:
  assumes "meta_fields ''normalized_prompt_logprob'' rs = Inr (map JReal scores)"
    and "meta_fields ''input_token_logprobs'' rs = Inr itl"
    and "meta_fields ''output_token_logprobs'' rs = Inr otl"
    and "length rs = length choices"
    and "choices \<noteq> []"
  shows "\<exists>k. select_result numpy choices (JArr rs) = Inr (choices ! k, map JReal scores, itl, otl)
     \<and> k < length choices
     \<and> (\<forall>j<length choices. scores ! j \<le> scores ! k)
     \<and> (\<forall>j<k. scores ! j < scores ! k)"
proof -
  have len: "length scores = length choices"
    using length_meta_fields [OF assms(1)] assms(4) by simp
  with assms(5) have "scores \<noteq> []" by auto
  from np_argmax_first_max [OF this, of numpy] obtain k where
    k: "np_argmax numpy (map JReal scores) = Inr k"
    "k < length scores" "\<forall>j<length scores. scores ! j \<le> scores ! k" "\<forall>j<k. scores ! j < scores ! k"
    by blast
  have "select_result numpy choices (JArr rs) = Inr (choices ! k, map JReal scores, itl, otl)"
    using k(2) len by (simp add: select_result_def assms(1) k(1) assms(2) assms(3))
  with k len show ?thesis by auto
qed

lemma select_reads_scores:
  assumes "temperature \<le> 1 / 100000"
    and "length (s_images s) \<le> 1"
    and "\<And>req. net sent req = Inr res1"
    and "status_code res1 = 200"
    and "res_json res1 = Some obj1"
    and "getitem obj1 ''meta_info'' = Inr m"
    and "getitem m ''prompt_tokens'' = Inr (JInt p)"
    and "\<And>r req. net (sent @ [r]) req = Inr res2"
    and "status_code res2 = 200"
    and "res_json res2 = Some obj"
  shows "fst (select net numpy self s choices temperature sent) = select_result numpy choices obj"
proof -
  have sc: "add_images s (score_data s choices (JInt (max (p - 2) 0)))
      = Inr (score_data s choices (JInt (max (p - 2) 0)) @ image_field s)"
    by (rule add_images_appends [OF assms(2)]) (simp add: score_data_def)
  have pr: "select_prime net self s sent =
     (Inr (JInt p),
      sent @ [endpoint_request self ''/generate'' (Some (JObj (prime_data s @ image_field s))) False])"
    using select_prime_reads [where net = net and sent = sent and ?res1.0 = res1,
        OF assms(2) assms(3) assms(4) assms(5) assms(6)]
    by (simp only: assms(7))
  show ?thesis
    using assms(1)
    by (simp add: select_def pr sc http_request_def assms(8) assert_success_200 [OF assms(9)] assms(10))
qed

text \<open>
  Claim C2. When both calls of \<^verbatim>\<open>select\<close> succeed and the scoring response is a list
  with one entry per choice, each carrying a float as normalized prompt log-probability
  and the two logprob columns, \<^verbatim>\<open>select\<close> returns the choice at an index \<open>k\<close> whose
  score is at least every score and strictly greater than every score before it: the
  maximum, and the first one among ties. The scores are floats, read as reals; numpy's
  behaviour on other vectors is not used.
\<close>

theorem select_returns_first_maximum:
  assumes "temperature \<le> 1 / 100000"
    and "length (s_images s) \<le> 1"
    and "\<And>req. net sent req = Inr res1"
    and "status_code res1 = 200"
    and "res_json res1 = Some obj1"
    and "getitem obj1 ''meta_info'' = Inr m"
    and "getitem m ''prompt_tokens'' = Inr (JInt p)"
    and "\<And>r req. net (sent @ [r]) req = Inr res2"
    and "status_code res2 = 200"
    and "res_json res2 = Some (JArr rs)"
    and "meta_fields ''normalized_prompt_logprob'' rs = Inr (map JReal scores)"
    and "meta_fields ''input_token_logprobs'' rs = Inr itl"
    and "meta_fields ''output_token_logprobs'' rs = Inr otl"
    and "length rs = length choices"
    and "choices \<noteq> []"
  shows "\<exists>k. fst (select net numpy self s choices temperature sent)
            = Inr (choices ! k, map JReal scores, itl, otl)
     \<and> k < length choices
     \<and> (\<forall>j<length choices. scores ! j \<le> scores ! k)
     \<and> (\<forall>j<k. scores ! j < scores ! k)"
proof -
  have "fst (select net numpy self s choices temperature sent) = select_result numpy choices (JArr rs)"
    using assms(1) assms(2) assms(3) assms(4) assms(5) assms(6) assms(7) assms(8) assms(9) assms(10)
    by (rule select_reads_scores)
  with select_result_scored [OF assms(11) assms(12) assms(13) assms(14) assms(15), of numpy]
  show ?thesis by simp
qed

theorem select_returns_first_maximum_witness:
  "fst (select toy_net toy_numpy toy_self toy_s [''a'', ''b'', ''c''] 0 []) =
     Inr (''b'', [JReal (- 3), JReal (- 1), JReal (- 1)], [JArr [], JArr [], JArr []],
          [JArr [], JArr [], JArr []])"
proof -
  let ?rs = "[toy_score (- 3), toy_score (- 1), toy_score (- 1)]"
  let ?choices = "[''a'', ''b'', ''c'']"
  let ?scores = "[- 3, - 1, - 1 :: real]"
  have temp: "(0::real) \<le> 1 / 100000" by simp
  have images: "length (s_images toy_s) \<le> 1" by (simp add: toy_s_def)
  have net1: "\<And>req. toy_net [] req = Inr toy_prime" by (simp add: toy_net_def)
  have ok1: "status_code toy_prime = 200" by (simp add: toy_prime_def)
  have body1: "res_json toy_prime =
      Some (JObj [(''text'', JStr []), (''meta_info'', JObj [(''prompt_tokens'', JInt 1)])])"
    by (simp add: toy_prime_def)
  have meta: "getitem (JObj [(''text'', JStr []), (''meta_info'', JObj [(''prompt_tokens'', JInt 1)])])
      ''meta_info'' = Inr (JObj [(''prompt_tokens'', JInt 1)])" by simp
  have tokens: "getitem (JObj [(''prompt_tokens'', JInt 1)]) ''prompt_tokens'' = Inr (JInt 1)" by simp
  have net2: "\<And>r req. toy_net ([] @ [r]) req = Inr toy_scores" by (simp add: toy_net_def)
  have ok2: "status_code toy_scores = 200" by (simp add: toy_scores_def)
  have body2: "res_json toy_scores = Some (JArr ?rs)" by (simp add: toy_scores_def)
  have nlp: "meta_fields ''normalized_prompt_logprob'' ?rs = Inr (map JReal ?scores)"
    by (simp add: toy_score_def)
  have itl: "meta_fields ''input_token_logprobs'' ?rs = Inr [JArr [], JArr [], JArr []]"
    by (simp add: toy_score_def)
  have otl: "meta_fields ''output_token_logprobs'' ?rs = Inr [JArr [], JArr [], JArr []]"
    by (simp add: toy_score_def)
  have len: "length ?rs = length ?choices" by simp
  have ne: "?choices \<noteq> []" by simp
  from select_returns_first_maximum [where net = toy_net and sent = "[]" and self = toy_self
      and ?res1.0 = toy_prime and ?res2.0 = toy_scores and numpy = toy_numpy,
      OF temp images net1 ok1 body1 meta tokens net2 ok2 body2 nlp itl otl len ne]
  obtain k where res: "fst (select toy_net toy_numpy toy_self toy_s ?choices 0 []) =
        Inr (?choices ! k, map JReal ?scores, [JArr [], JArr [], JArr []],
             [JArr [], JArr [], JArr []])"
    and k: "k < length ?choices"
    and mx: "\<forall>j<length ?choices. ?scores ! j \<le> ?scores ! k"
    and first: "\<forall>j<k. ?scores ! j < ?scores ! k"
    by blast
  from k have "k = 0 \<or> k = 1 \<or> k = 2" by auto
  moreover from mx [rule_format, of 1] have "?scores ! 1 \<le> ?scores ! k" by simp
  moreover from first [rule_format, of 1] have "1 < k \<longrightarrow> ?scores ! 1 < ?scores ! k" by simp
  ultimately have "k = 1" by auto
  with res show ?thesis by simp
qed

lemma select_result_in_range:
  "select_result numpy choices obj = Inr (decision, nlp, itl, otl) \<Longrightarrow>
   \<exists>k<length choices. np_argmax numpy nlp = Inr k \<and> decision = choices ! k"
  by (auto simp: select_result_def split: sum.splits if_splits)

lemma select_returns_result:
  "fst (select net numpy self s choices temperature sent) = Inr r \<Longrightarrow> \<exists>obj. select_result numpy choices obj = Inr r"
  by (auto simp: select_def split: if_splits prod.splits sum.splits option.splits)

text \<open>
  Claim C10. Whenever \<^verbatim>\<open>select\<close> returns a value, the list of choices is not empty
  and the decision is the element of \<open>choices\<close> at the index \<^verbatim>\<open>np.argmax\<close> gave,
  which is within range; with an empty list of choices \<^verbatim>\<open>select\<close> ends in an
  exception, whatever the transport answers.
\<close>

theorem select_decision_in_choices:
  "(select net numpy self s choices temperature sent = (Inr (decision, nlp, itl, otl), sent') \<longrightarrow>
      choices \<noteq> [] \<and> decision \<in> set choices
      \<and> (\<exists>k<length choices. np_argmax numpy nlp = Inr k \<and> decision = choices ! k))
   \<and> (choices = [] \<longrightarrow> (\<exists>e. fst (select net numpy self s choices temperature sent) = Inl e))"
proof -
  have a: "\<exists>k<length choices. np_argmax numpy nlp = Inr k \<and> decision = choices ! k"
    if "fst (select net numpy self s choices temperature sent) = Inr (decision, nlp, itl, otl)"
    for decision nlp itl otl
    using select_returns_result [OF that] select_result_in_range by blast
  have b: "\<exists>e. fst (select net numpy self s choices temperature sent) = Inl e" if "choices = []"
  proof (cases "fst (select net numpy self s choices temperature sent)")
    case (Inl e)
    then show ?thesis by blast
  next
    case (Inr r)
    obtain d n i o' where "r = (d, n, i, o')" by (cases r) auto
    with Inr a [of d n i o'] that show ?thesis by auto
  qed
  show ?thesis
  proof (intro conjI impI)
    assume r: "select net numpy self s choices temperature sent = (Inr (decision, nlp, itl, otl), sent')"
    then have "fst (select net numpy self s choices temperature sent) = Inr (decision, nlp, itl, otl)" by simp
    from a [OF this] obtain k where k: "k < length choices" "np_argmax numpy nlp = Inr k" "decision = choices ! k"
      by blast
    from k show "choices \<noteq> []" by auto
    from k show "decision \<in> set choices" by auto
    from k show "\<exists>k<length choices. np_argmax numpy nlp = Inr k \<and> decision = choices ! k" by blast
  next
    assume "choices = []"
    then show "\<exists>e. fst (select net numpy self s choices temperature sent) = Inl e" by (rule b)
  qed
qed

lemma toy_select_value:
  "select toy_net toy_numpy toy_self toy_s [''a'', ''b'', ''c''] 0 [] =
     (Inr (''b'', [JReal (- 3), JReal (- 1), JReal (- 1)], [JArr [], JArr [], JArr []],
           [JArr [], JArr [], JArr []]),
      snd (select toy_net toy_numpy toy_self toy_s [''a'', ''b'', ''c''] 0 []))"
  by (simp add: select_def select_prime_def add_images_def toy_s_def prime_data_def score_data_def
      http_request_def toy_net_def toy_prime_def toy_scores_def toy_score_def assert_success_def
      select_result_def np_argmax_def)

theorem select_decision_in_choices_witness:
  "[''a'', ''b'', ''c''] \<noteq> [] \<and> ''b'' \<in> set [''a'', ''b'', ''c'']
   \<and> (\<exists>k<length [''a'', ''b'', ''c'']. np_argmax toy_numpy [JReal (- 3), JReal (- 1), JReal (- 1)] = Inr k
          \<and> ''b'' = [''a'', ''b'', ''c''] ! k)
   \<and> (\<exists>e. fst (select toy_net toy_numpy toy_self toy_s [] 0 []) = Inl e)"
  using select_decision_in_choices [of toy_net toy_numpy toy_self toy_s "[''a'', ''b'', ''c'']" 0 "[]" "''b''"
      "[JReal (- 3), JReal (- 1), JReal (- 1)]" "[JArr [], JArr [], JArr []]" "[JArr [], JArr [], JArr []]"
      "snd (select toy_net toy_numpy toy_self toy_s [''a'', ''b'', ''c''] 0 [])"]
    select_decision_in_choices [of toy_net toy_numpy toy_self toy_s "[]" 0 "[]"]
    toy_select_value
  by simp

lemma select_prime_log:
  "length (s_images s) \<le> 1 \<Longrightarrow>
   snd (select_prime net self s sent) =
     sent @ [endpoint_request self ''/generate'' (Some (JObj (prime_data s @ image_field s))) False]"
proof -
  assume "length (s_images s) \<le> 1"
  then have "add_images s (prime_data s) = Inr (prime_data s @ image_field s)"
    by (rule add_images_appends) (simp add: prime_data_def)
  then show ?thesis
    by (simp add: select_prime_def http_request_def split: sum.splits option.splits)
qed

lemma select_log_extends:
  "temperature \<le> 1 / 100000 \<Longrightarrow> prefix (snd (select_prime net self s sent)) (snd (select net numpy self s choices temperature sent))"
  by (cases "select_prime net self s sent")
    (auto simp: select_def http_request_def split: sum.splits option.splits)

text \<open>
  Claim C6. With a temperature above \<open>1e-5\<close> \<^verbatim>\<open>select\<close> raises the assertion error
  and the log of requests is unchanged. With a temperature of at most \<open>1e-5\<close> it behaves
  as with temperature 0 (nothing after the check reads the temperature), and when the
  state carries at most one image the priming request is issued.
\<close>

theorem select_temperature_precondition:
  "(1 / 100000 < temperature \<longrightarrow>
      select net numpy self s choices temperature sent = (Inl (AssertionError []), sent))
   \<and> (temperature \<le> 1 / 100000 \<longrightarrow>
      select net numpy self s choices temperature sent = select net numpy self s choices 0 sent
      \<and> (length (s_images s) \<le> 1 \<longrightarrow>
           prefix (sent @ [endpoint_request self ''/generate''
                             (Some (JObj (prime_data s @ image_field s))) False])
                  (snd (select net numpy self s choices temperature sent))))"
proof (intro conjI impI)
  assume "1 / 100000 < temperature"
  then show "select net numpy self s choices temperature sent = (Inl (AssertionError []), sent)"
    by (simp add: select_def)
next
  assume "temperature \<le> 1 / 100000"
  then show "select net numpy self s choices temperature sent = select net numpy self s choices 0 sent"
    by (simp add: select_def)
next
  assume "temperature \<le> 1 / 100000" and "length (s_images s) \<le> 1"
  then show "prefix (sent @ [endpoint_request self ''/generate''
                               (Some (JObj (prime_data s @ image_field s))) False])
                    (snd (select net numpy self s choices temperature sent))"
    using select_log_extends [of temperature net self s sent numpy choices] select_prime_log [of s net self sent]
    by simp
qed

theorem select_temperature_precondition_witness:
  "select toy_net toy_numpy toy_self toy_s [''a'', ''b'', ''c''] 1 [] = (Inl (AssertionError []), [])
   \<and> select toy_net toy_numpy toy_self toy_s [''a'', ''b'', ''c''] (1 / 100000) []
       = select toy_net toy_numpy toy_self toy_s [''a'', ''b'', ''c''] 0 []
   \<and> prefix ([] @ [endpoint_request toy_self ''/generate''
                      (Some (JObj (prime_data toy_s @ image_field toy_s))) False])
             (snd (select toy_net toy_numpy toy_self toy_s [''a'', ''b'', ''c''] (1 / 100000) []))"
proof -
  have hot: "1 / 100000 < (1::real)" by simp
  have cold: "(1 / 100000 :: real) \<le> 1 / 100000" by simp
  have images: "length (s_images toy_s) \<le> 1" by (simp add: toy_s_def)
  from select_temperature_precondition [of 1 toy_net toy_numpy toy_self toy_s "[''a'', ''b'', ''c'']" "[]"] hot
  have a: "select toy_net toy_numpy toy_self toy_s [''a'', ''b'', ''c''] 1 [] = (Inl (AssertionError []), [])"
    by blast
  from select_temperature_precondition [of "1 / 100000" toy_net toy_numpy toy_self toy_s "[''a'', ''b'', ''c'']" "[]"]
    cold images
  have b: "select toy_net toy_numpy toy_self toy_s [''a'', ''b'', ''c''] (1 / 100000) []
       = select toy_net toy_numpy toy_self toy_s [''a'', ''b'', ''c''] 0 []
     \<and> prefix ([] @ [endpoint_request toy_self ''/generate''
                      (Some (JObj (prime_data toy_s @ image_field toy_s))) False])
             (snd (select toy_net toy_numpy toy_self toy_s [''a'', ''b'', ''c''] (1 / 100000) []))"
    by blast
  from a b show ?thesis by blast
qed

subsection \<open>Images in a generation request\<close>

lemma map_of_set_item:
  "map_of (set_item data item v) k = (if k = item \<and> v \<noteq> None then v else map_of data k)"
  by (cases v) (simp_all add: set_item_def update_conv')

lemma generation_data_no_image:
  "generation_data gc s sp = Inr data \<Longrightarrow> map_of data ''image_data'' = None"
  by (auto simp: generation_data_def map_of_set_item split: if_splits)

lemma generation_data_invalid:
  "dtype sp \<notin> {DNone, DType ''int'', DStr ''int''} \<Longrightarrow>
   generation_data gc s sp = Inl (RuntimeError [JStr (''Invalid dtype: '' @ dtype_repr (dtype sp))])"
  by (simp add: generation_data_def)

lemma generate_log:
  "generation_data gc s sp = Inr data0 \<Longrightarrow> add_images s data0 = Inr data \<Longrightarrow>
   snd (generate net gc self s sp sent) = sent @ [endpoint_request self ''/generate'' (Some (JObj data)) False]"
  by (simp add: generate_def http_request_def split: sum.splits option.splits)

text \<open>
  Claim C7. With more than one image \<^verbatim>\<open>generate\<close> raises and the log of requests is
  unchanged: the assertion error of \<^verbatim>\<open>_add_images\<close> when the datatype selector is
  valid, the error of the selector check, which comes first, otherwise. With a valid
  selector and exactly one image the one request issued carries the image's data under
  \<^verbatim>\<open>image_data\<close>; with no image the request has no such field.
\<close>

theorem generate_image_field:
  "(1 < length (s_images s) \<longrightarrow>
      generate net gc self s sp sent =
        (Inl (if dtype sp \<in> {DNone, DType ''int'', DStr ''int''}
              then AssertionError ''Only support one image.''
              else RuntimeError [JStr (''Invalid dtype: '' @ dtype_repr (dtype sp))]), sent))
   \<and> (dtype sp \<in> {DNone, DType ''int'', DStr ''int''} \<and> s_images s = [(path, img)] \<longrightarrow>
        (\<exists>data. snd (generate net gc self s sp sent)
                   = sent @ [endpoint_request self ''/generate'' (Some (JObj data)) False]
              \<and> map_of data ''image_data'' = Some (JStr img)))
   \<and> (dtype sp \<in> {DNone, DType ''int'', DStr ''int''} \<and> s_images s = [] \<longrightarrow>
        (\<exists>data. snd (generate net gc self s sp sent)
                   = sent @ [endpoint_request self ''/generate'' (Some (JObj data)) False]
              \<and> map_of data ''image_data'' = None))"
proof (intro conjI impI)
  assume many: "1 < length (s_images s)"
  show "generate net gc self s sp sent =
        (Inl (if dtype sp \<in> {DNone, DType ''int'', DStr ''int''}
              then AssertionError ''Only support one image.''
              else RuntimeError [JStr (''Invalid dtype: '' @ dtype_repr (dtype sp))]), sent)"
  proof (cases "dtype sp \<in> {DNone, DType ''int'', DStr ''int''}")
    case True
    then obtain data0 where "generation_data gc s sp = Inr data0"
      using generation_data_valid by blast
    with True show ?thesis
      by (simp add: generate_def add_images_many [OF many])
  next
    case False
    then show ?thesis
      by (simp add: generate_def generation_data_invalid [OF False])
  qed
next
  assume a: "dtype sp \<in> {DNone, DType ''int'', DStr ''int''} \<and> s_images s = [(path, img)]"
  then obtain data0 where d0: "generation_data gc s sp = Inr data0"
    using generation_data_valid by blast
  have ai: "add_images s data0 = Inr (AList.update ''image_data'' (JStr img) data0)"
    using a by (simp add: add_images_def)
  have "map_of (AList.update ''image_data'' (JStr img) data0) ''image_data'' = Some (JStr img)"
    by (simp add: update_conv')
  with generate_log [OF d0 ai]
  show "\<exists>data. snd (generate net gc self s sp sent)
                   = sent @ [endpoint_request self ''/generate'' (Some (JObj data)) False]
              \<and> map_of data ''image_data'' = Some (JStr img)"
    by blast
next
  assume a: "dtype sp \<in> {DNone, DType ''int'', DStr ''int''} \<and> s_images s = []"
  then obtain data0 where d0: "generation_data gc s sp = Inr data0"
    using generation_data_valid by blast
  have ai: "add_images s data0 = Inr data0"
    using a by (simp add: add_images_def)
  from generate_log [OF d0 ai] generation_data_no_image [OF d0]
  show "\<exists>data. snd (generate net gc self s sp sent)
                   = sent @ [endpoint_request self ''/generate'' (Some (JObj data)) False]
              \<and> map_of data ''image_data'' = None"
    by blast
qed

theorem generate_image_field_witness:
  "generate (\<lambda>sent req. Inr toy_completion) toy_gc toy_self
      (toy_s\<lparr>s_images := [(''a.png'', ''AAA''), (''b.png'', ''BBB'')]\<rparr>) toy_sp []
     = (Inl (AssertionError ''Only support one image.''), [])
   \<and> (\<exists>data. snd (generate (\<lambda>sent req. Inr toy_completion) toy_gc toy_self
                      (toy_s\<lparr>s_images := [(''a.png'', ''AAA'')]\<rparr>) toy_sp [])
                = [] @ [endpoint_request toy_self ''/generate'' (Some (JObj data)) False]
           \<and> map_of data ''image_data'' = Some (JStr ''AAA''))
   \<and> (\<exists>data. snd (generate (\<lambda>sent req. Inr toy_completion) toy_gc toy_self toy_s toy_sp [])
                = [] @ [endpoint_request toy_self ''/generate'' (Some (JObj data)) False]
           \<and> map_of data ''image_data'' = None)"
proof -
  have valid: "dtype toy_sp \<in> {DNone, DType ''int'', DStr ''int''}" by (simp add: toy_sp_def)
  have two: "1 < length (s_images (toy_s\<lparr>s_images := [(''a.png'', ''AAA''), (''b.png'', ''BBB'')]\<rparr>))"
    by simp
  have one: "s_images (toy_s\<lparr>s_images := [(''a.png'', ''AAA'')]\<rparr>) = [(''a.png'', ''AAA'')]"
    by simp
  have none: "s_images toy_s = []" by (simp add: toy_s_def)
  from generate_image_field [of "toy_s\<lparr>s_images := [(''a.png'', ''AAA''), (''b.png'', ''BBB'')]\<rparr>"
      "\<lambda>sent req. Inr toy_completion" toy_gc toy_self toy_sp "[]"] two valid
  have a: "generate (\<lambda>sent req. Inr toy_completion) toy_gc toy_self
      (toy_s\<lparr>s_images := [(''a.png'', ''AAA''), (''b.png'', ''BBB'')]\<rparr>) toy_sp []
     = (Inl (AssertionError ''Only support one image.''), [])"
    by simp
  from generate_image_field [of "toy_s\<lparr>s_images := [(''a.png'', ''AAA'')]\<rparr>"
      "\<lambda>sent req. Inr toy_completion" toy_gc toy_self toy_sp "[]" "''a.png''" "''AAA''"] one valid
  have b: "\<exists>data. snd (generate (\<lambda>sent req. Inr toy_completion) toy_gc toy_self
                      (toy_s\<lparr>s_images := [(''a.png'', ''AAA'')]\<rparr>) toy_sp [])
                = [] @ [endpoint_request toy_self ''/generate'' (Some (JObj data)) False]
           \<and> map_of data ''image_data'' = Some (JStr ''AAA'')"
    by blast
  from generate_image_field [of toy_s "\<lambda>sent req. Inr toy_completion" toy_gc toy_self toy_sp "[]"]
    none valid
  have c: "\<exists>data. snd (generate (\<lambda>sent req. Inr toy_completion) toy_gc toy_self toy_s toy_sp [])
                = [] @ [endpoint_request toy_self ''/generate'' (Some (JObj data)) False]
           \<and> map_of data ''image_data'' = None"
    by blast
  from a b c show ?thesis by blast
qed

subsection \<open>State merge and proxy calls\<close>

text \<open>
  Claim C9 names the path \<^verbatim>\<open>concatenate_and_append_request\<close>; the request goes to
  another path.
\<close>

theorem concatenate_and_append_path_counterexample:
  "req_url (last (snd (concatenate_and_append toy_ok_net toy_self [''r1'', ''r2''] ''r3'' [])))
     \<noteq> base_url toy_self @ ''/concatenate_and_append_request''"
  by (simp add: concatenate_and_append_def http_request_def endpoint_request_def toy_self_def
      toy_ok_net_def)

text \<open>
  Claim C9, amended. \<^verbatim>\<open>concatenate_and_append\<close> issues exactly one request, whatever
  the ids are: to \<^verbatim>\<open>/concate_and_append_request\<close> under the base address, carrying
  the source ids and the destination id. If the response has status 200 the call returns.
  On every other status it raises because of the reply, which is the spec's
  \<^verbatim>\<open>ProtocolError\<close>: \<^verbatim>\<open>RuntimeError\<close> with the decoded body, or, when the body
  cannot be decoded to build that error, the decoder's own error (the spec counts a
  malformed frame as \<^verbatim>\<open>ProtocolError\<close> too).
\<close>

theorem concatenate_and_append_request:
  "snd (concatenate_and_append net self src_rids dst_rid sent) =
     sent @ [\<lparr>req_url = base_url self @ ''/concate_and_append_request'',
              req_json = Some (JObj [(''src_rids'', JArr (map JStr src_rids)), (''dst_rid'', JStr dst_rid)]),
              req_stream = False, req_cred_kw = ''api_key'', req_cred = api_key self,
              req_verify = verify self\<rparr>]
   \<and> (net sent \<lparr>req_url = base_url self @ ''/concate_and_append_request'',
              req_json = Some (JObj [(''src_rids'', JArr (map JStr src_rids)), (''dst_rid'', JStr dst_rid)]),
              req_stream = False, req_cred_kw = ''api_key'', req_cred = api_key self,
              req_verify = verify self\<rparr> = Inr res \<longrightarrow>
        (status_code res = 200 \<longrightarrow>
           fst (concatenate_and_append net self src_rids dst_rid sent) = Inr ())
        \<and> (status_code res \<noteq> 200 \<longrightarrow>
           fst (concatenate_and_append net self src_rids dst_rid sent)
             = Inl (case res_json res of
                      Some detail \<Rightarrow> RuntimeError [detail]
                    | None \<Rightarrow> JSONDecodeError)))"
  by (auto simp: concatenate_and_append_def http_request_def endpoint_request_def assert_success_def
      split: sum.splits option.splits)

theorem concatenate_and_append_request_witness:
  "concatenate_and_append (\<lambda>sent req. Inr toy_404) toy_self [''r1'', ''r2''] ''r3'' [] =
     (Inl (RuntimeError [JObj [(''detail'', JStr ''Not Found'')]]),
      [\<lparr>req_url = ''http://h:1/concate_and_append_request'',
        req_json = Some (JObj [(''src_rids'', JArr [JStr ''r1'', JStr ''r2'']), (''dst_rid'', JStr ''r3'')]),
        req_stream = False, req_cred_kw = ''api_key'', req_cred = None, req_verify = None\<rparr>])
   \<and> fst (concatenate_and_append (\<lambda>sent req. Inr toy_502) toy_self [''r1'', ''r2''] ''r3'' [])
       = Inl JSONDecodeError
   \<and> fst (concatenate_and_append (\<lambda>sent req. Inr toy_completion) toy_self [''r1'', ''r2''] ''r3'' [])
       = Inr ()"
proof -
  have bad: "status_code toy_404 \<noteq> 200" "res_json toy_404 = Some (JObj [(''detail'', JStr ''Not Found'')])"
    by (simp_all add: toy_404_def)
  have worse: "status_code toy_502 \<noteq> 200" "res_json toy_502 = None"
    by (simp_all add: toy_502_def)
  have good: "status_code toy_completion = 200" by (simp add: toy_completion_def)
  from concatenate_and_append_request [of "\<lambda>sent req. Inr toy_404" toy_self "[''r1'', ''r2'']" "''r3''" "[]"
      toy_404] bad
  have a: "concatenate_and_append (\<lambda>sent req. Inr toy_404) toy_self [''r1'', ''r2''] ''r3'' [] =
     (Inl (RuntimeError [JObj [(''detail'', JStr ''Not Found'')]]),
      [\<lparr>req_url = ''http://h:1/concate_and_append_request'',
        req_json = Some (JObj [(''src_rids'', JArr [JStr ''r1'', JStr ''r2'']), (''dst_rid'', JStr ''r3'')]),
        req_stream = False, req_cred_kw = ''api_key'', req_cred = None, req_verify = None\<rparr>])"
    by (cases "concatenate_and_append (\<lambda>sent req. Inr toy_404) toy_self [''r1'', ''r2''] ''r3'' []")
      (simp add: toy_self_def)
  from concatenate_and_append_request [of "\<lambda>sent req. Inr toy_502" toy_self "[''r1'', ''r2'']" "''r3''" "[]"
      toy_502] worse
  have b: "fst (concatenate_and_append (\<lambda>sent req. Inr toy_502) toy_self [''r1'', ''r2''] ''r3'' [])
       = Inl JSONDecodeError"
    by simp
  from concatenate_and_append_request [of "\<lambda>sent req. Inr toy_completion" toy_self "[''r1'', ''r2'']"
      "''r3''" "[]" toy_completion] good
  have c: "fst (concatenate_and_append (\<lambda>sent req. Inr toy_completion) toy_self [''r1'', ''r2''] ''r3'' [])
       = Inr ()"
    by simp
  from a b c show ?thesis by blast
qed

text \<open>
  Claim C8, at a concrete input. A session constructed against a server that answers the
  metadata fetch, the base class having assigned no \<^verbatim>\<open>auth_token\<close>: the model name is
  read back, but \<^verbatim>\<open>flush_cache\<close> and \<^verbatim>\<open>get_server_args\<close> raise
  \<^verbatim>\<open>AttributeError\<close> before any request, although the server would answer 200.
\<close>

theorem flush_cache_attribute_error:
  "runtime_endpoint_init (\<lambda>sent req. Inr toy_info) (\<lambda>path. ()) [] ''http://h:1'' None None []
     = (Inr toy_self,
        [\<lparr>req_url = ''http://h:1/get_model_info'', req_json = None, req_stream = False,
          req_cred_kw = ''api_key'', req_cred = None, req_verify = None\<rparr>])
   \<and> flush_cache (\<lambda>sent req. Inr toy_completion) toy_self [] = (Inl (AttributeError ''auth_token''), [])
   \<and> get_server_args (\<lambda>sent req. Inr toy_completion) toy_self [] = (Inl (AttributeError ''auth_token''), [])
   \<and> get_model_name toy_self = Inr (JStr ''m'')"
  by (simp add: runtime_endpoint_init_def http_request_def toy_info_def assert_success_def toy_self_def
      flush_cache_def get_server_args_def getattr_auth_token_def get_model_name_def)

subsection \<open>The test runner\<close>

lemma started_append: "started (ev @ ev') = started ev @ started ev'"
  by (induction ev rule: started.induct) simp_all

lemma started_map_Start: "started (map Start fs) = fs"
  by (induction fs) simp_all

lemma files_loop_started:
  "\<exists>n. started (snd (files_loop t files success ev)) = started ev @ map fst (take n files)"
proof (induction files arbitrary: success ev)
  case Nil
  then show ?case by simp
next
  case (Cons u files)
  obtain filename p where u: "u = (filename, p)" by (cases u)
  show ?case
  proof (cases "run_with_timeout (run_one_file t p)")
    case (Inl e)
    have "started (snd (files_loop t (u # files) success ev)) = started ev @ map fst (take 1 (u # files))"
      using Inl u by (simp add: started_append)
    then show ?thesis by blast
  next
    case (Inr v)
    show ?thesis
    proof (cases "exitcode p = Some 0")
      case False
      have "started (snd (files_loop t (u # files) success ev)) = started ev @ map fst (take 1 (u # files))"
        using Inr u False by (simp add: started_append)
      then show ?thesis by blast
    next
      case True
      from Cons.IH [of success "ev @ [Start filename]"] obtain n where
        "started (snd (files_loop t files success (ev @ [Start filename])))
          = started (ev @ [Start filename]) @ map fst (take n files)" by blast
      then have "started (snd (files_loop t (u # files) success ev))
          = started ev @ map fst (take (Suc n) (u # files))"
        using Inr u True by (simp add: started_append)
      then show ?thesis by blast
    qed
  qed
qed

lemma files_loop_successes:
  "list_all (succeeds t) pre \<Longrightarrow>
   files_loop t (pre @ rest) success ev = files_loop t rest success (ev @ map Start (map fst pre))"
proof (induction pre arbitrary: ev)
  case Nil
  then show ?case by simp
next
  case (Cons u pre)
  obtain filename p where u: "u = (filename, p)" by (cases u)
  from Cons.prems u obtain d where p: "p = Ends d 0" "d \<le> t"
    by (cases p) auto
  from Cons.prems have "list_all (succeeds t) pre" by simp
  from Cons.IH [OF this, of "ev @ [Start filename]"] show ?case
    using u p by (simp add: run_with_timeout_def)
qed

text \<open>
  Claim C5. The files whose workers the runner starts are a prefix of the input, in input
  order. When the units before some unit all succeed and that unit's worker ends within
  the timeout with a non-zero exit code, the runner starts exactly those units and that
  one, never a later one, and returns \<open>-1\<close>; when every unit succeeds it starts them all
  and returns \<open>0\<close>.
\<close>

theorem run_unittest_files_fail_fast:
  "prefix (started (snd (run_unittest_files files t))) (map fst files)
   \<and> (list_all (succeeds t) pre \<and> d \<le> t \<and> c \<noteq> 0 \<longrightarrow>
        run_unittest_files (pre @ (f, Ends d c) # post) t
          = (Inr (RInt (- 1)), map Start (map fst pre) @ [Start f, PrintFail]))
   \<and> (list_all (succeeds t) files \<longrightarrow>
        run_unittest_files files t = (Inr (RInt 0), map Start (map fst files) @ [PrintSuccess]))"
proof (intro conjI impI)
  from files_loop_started [of t files True "[]"] obtain n where
    n: "started (snd (files_loop t files True [])) = map fst (take n files)" by auto
  have "started (snd (run_unittest_files files t)) = map fst (take n files)"
    using n by (cases "files_loop t files True []")
      (auto simp: run_unittest_files_def started_append split: loop_exit.splits)
  then show "prefix (started (snd (run_unittest_files files t))) (map fst files)"
    by (simp add: take_is_prefix flip: take_map)
next
  assume a: "list_all (succeeds t) pre \<and> d \<le> t \<and> c \<noteq> 0"
  then have "files_loop t (pre @ (f, Ends d c) # post) True []
      = files_loop t ((f, Ends d c) # post) True (map Start (map fst pre))"
    using files_loop_successes [of t pre "(f, Ends d c) # post" True "[]"] by simp
  also have "\<dots> = (Finished False, map Start (map fst pre) @ [Start f])"
    using a by (simp add: run_with_timeout_def)
  finally show "run_unittest_files (pre @ (f, Ends d c) # post) t
      = (Inr (RInt (- 1)), map Start (map fst pre) @ [Start f, PrintFail])"
    by (simp add: run_unittest_files_def)
next
  assume "list_all (succeeds t) files"
  then have "files_loop t (files @ []) True [] = files_loop t [] True ([] @ map Start (map fst files))"
    by (rule files_loop_successes)
  then show "run_unittest_files files t = (Inr (RInt 0), map Start (map fst files) @ [PrintSuccess])"
    by (simp add: run_unittest_files_def)
qed

theorem run_unittest_files_fail_fast_witness:
  "run_unittest_files [(''A'', Ends 1 0), (''B'', Ends 2 1), (''C'', Ends 1 0)] 10
     = (Inr (RInt (- 1)), [Start ''A'', Start ''B'', PrintFail])
   \<and> run_unittest_files [(''A'', Ends 1 0), (''C'', Ends 1 0)] 10
     = (Inr (RInt 0), [Start ''A'', Start ''C'', PrintSuccess])
   \<and> prefix (started (snd (run_unittest_files [(''A'', Ends 1 0), (''B'', Ends 2 1), (''C'', Ends 1 0)] 10)))
        [''A'', ''B'', ''C'']"
proof -
  have pre: "list_all (succeeds 10) [(''A'', Ends 1 0)] \<and> (2::real) \<le> 10 \<and> (1::int) \<noteq> 0" by simp
  have all: "list_all (succeeds 10) [(''A'', Ends 1 0), (''C'', Ends 1 0)]" by simp
  from run_unittest_files_fail_fast [of "[(''A'', Ends 1 0), (''B'', Ends 2 1), (''C'', Ends 1 0)]" 10
      "[(''A'', Ends 1 0)]" 2 1 "''B''" "[(''C'', Ends 1 0)]"] pre
  have a: "run_unittest_files [(''A'', Ends 1 0), (''B'', Ends 2 1), (''C'', Ends 1 0)] 10
     = (Inr (RInt (- 1)), [Start ''A'', Start ''B'', PrintFail])
     \<and> prefix (started (snd (run_unittest_files [(''A'', Ends 1 0), (''B'', Ends 2 1), (''C'', Ends 1 0)] 10)))
        [''A'', ''B'', ''C'']"
    by simp
  from run_unittest_files_fail_fast [of "[(''A'', Ends 1 0), (''C'', Ends 1 0)]" 10 "[]" 0 1 "''x''" "[]"] all
  have b: "run_unittest_files [(''A'', Ends 1 0), (''C'', Ends 1 0)] 10
     = (Inr (RInt 0), [Start ''A'', Start ''C'', PrintSuccess])"
    by simp
  from a b show ?thesis by blast
qed

text \<open>
  Claim C4, at a concrete input. When the worker of the first file outlasts the timeout,
  the runner terminates it, sleeps five seconds, prints the timeout message and returns at
  once without starting the next file; but the value it returns is \<^verbatim>\<open>False\<close>, which
  as an integer is 0, the value returned when every unit succeeds, and not the \<open>-1\<close> of
  the failure path.
\<close>

theorem run_unittest_files_timeout_returns_false:
  "run_unittest_files [(''hang.py'', Forever), (''next.py'', Ends 1 0)] 10
     = (Inr (RBool False), [Start ''hang.py'', Terminate ''hang.py'', Sleep 5, PrintTimeout])
   \<and> int_of_retval (RBool False) = 0
   \<and> run_unittest_files [(''next.py'', Ends 1 0)] 10 = (Inr (RInt 0), [Start ''next.py'', PrintSuccess])
   \<and> run_unittest_files [(''bad.py'', Ends 1 1)] 10 = (Inr (RInt (- 1)), [Start ''bad.py'', PrintFail])"
  by (simp add: run_unittest_files_def run_with_timeout_def)

end
